theory Spec2Isabelle
  imports Main "HOL-Library.Word"
begin

section \<open>The process-control dispatcher of the kernel (kernel/API/ProcessCtl.cpp)\<close>

text \<open>
  The development embeds \<^verbatim>\<open>interruptNotify\<close> and \<^verbatim>\<open>ProcessCtlHandler\<close> of
  kernel/API/ProcessCtl.cpp, the macros \<^verbatim>\<open>IRQ_REG\<close> and \<^verbatim>\<open>IRQ\<close> and the
  struct \<^verbatim>\<open>CPUState\<close> of lib/libarch/arm/ARMCore.h. The classes Process,
  ProcessManager, Kernel and Timer are declared elsewhere in the repository; what the
  dispatcher calls on them is modelled from the specification, each such definition
  being marked.
\<close>

subsection \<open>Machine words\<close>

type_synonym u32 = "32 word"
type_synonym Address = u32
type_synonym ProcessID = u32

subsection \<open>CPUState (lib/libarch/arm/ARMCore.h)\<close>

record CPUState =
  padding :: "u32 list"
  cpsr :: u32
  sp :: u32
  lr :: u32
  r0 :: u32
  r1 :: u32
  r2 :: u32
  r3 :: u32
  r4 :: u32
  r5 :: u32
  r6 :: u32
  r7 :: u32
  r8 :: u32
  r9 :: u32
  r10 :: u32
  r11 :: u32
  r12 :: u32
  pc :: u32

text \<open>\<^verbatim>\<open>#define IRQ_REG(state) (0)\<close>: the ARM definition ignores the saved state.\<close>

definition IRQ_REG :: "CPUState \<Rightarrow> u32" where
  "IRQ_REG st = 0"

text \<open>\<^verbatim>\<open>#define IRQ(vector) (vector)\<close>\<close>

definition IRQ :: "Address \<Rightarrow> Address" where
  "IRQ vector = vector"

subsection \<open>Process events, process information, timer values\<close>

text \<open>
  The event type enumeration is declared in ProcessEvent.h; the dispatcher only names
  \<^verbatim>\<open>InterruptEvent\<close>, the second constructor stands for its other members.
\<close>

datatype ProcessEventType = InterruptEvent | OtherEvent

record ProcessEvent =
  event_type :: ProcessEventType
  event_number :: u32

datatype State = Running | Ready | Stopped | Sleeping | Waiting

text \<open>The six fields the \<^verbatim>\<open>InfoPID\<close> arm assigns, in its order.\<close>

record ProcessInfo =
  info_id :: ProcessID
  info_state :: State
  info_userStack :: Address
  info_kernelStack :: Address
  info_pageDirectory :: Address
  info_parent :: ProcessID

text \<open>
  Modelled from the spec: \<^verbatim>\<open>Timer::Info\<close>, "an opaque comparable time value (e.g.,
  tick count + frequency)".
\<close>

record Timer_Info =
  ticks :: u32
  frequency :: u32

subsection \<open>The process control block\<close>

text \<open>
  Modelled from the spec: the wait field of a Process, "optional process ID this
  process is blocked on, plus the exit status it will receive when that target
  terminates". The dispatcher stores the target with \<^verbatim>\<open>setWait\<close> and reads the
  exit status back with \<^verbatim>\<open>getWait\<close>: one machine word, whose current meaning
  the constructor records. \<open>NoWait\<close> is the field of a process that has not waited.
\<close>

datatype WaitField = NoWait | WaitFor ProcessID | ExitStatus u32

text \<open>\<^verbatim>\<open>getWait()\<close>: the word stored in the wait field, whatever it stands for.\<close>

fun wait_word :: "WaitField \<Rightarrow> u32" where
  "wait_word NoWait = 0"
| "wait_word (WaitFor t) = t"
| "wait_word (ExitStatus v) = v"

text \<open>
  Modelled from the spec: the Process entity of section 3 (identity, state, CPU state,
  stack handles, wait target, sleep deadline, pending wakeups, event queue). Only
  \<open>m_cpuState\<close> is declared under the sources (kernel/arm/ARMProcess.h). The
  pending-wakeup counter is the spec's "counter", a natural number.
\<close>

record Process =
  m_id :: ProcessID
  m_parent :: ProcessID
  m_state :: State
  m_cpuState :: CPUState
  m_userStack :: Address
  m_kernelStack :: Address
  m_pageDirectory :: Address
  m_wait :: WaitField
  m_sleepTimer :: "Timer_Info option"
  m_wakeups :: nat
  m_events :: "ProcessEvent list"

subsection \<open>Kernel state\<close>

text \<open>
  What a caller-supplied address points to: the dispatcher casts \<^verbatim>\<open>addr\<close> to
  \<^verbatim>\<open>ProcessInfo *\<close> or to \<^verbatim>\<open>Timer::Info *\<close>. User memory is a store of such
  objects, keyed by the address an object starts at. The store has the granularity of
  whole structs: the byte layout of the structs is not modelled, and objects at
  different keys are taken not to overlap.
\<close>

datatype UserObject = InfoObject ProcessInfo | TimerObject Timer_Info

text \<open>
  The state the dispatcher reaches through \<^verbatim>\<open>Kernel::instance\<close>. A
  \<^verbatim>\<open>Process *\<close> is modelled by the table key of the process it points to, so that
  two pointers to one process alias; \<^verbatim>\<open>ZERO\<close> is \<open>None\<close>.
  \<^item> \<open>procs\<close>, \<open>current\<close>, \<open>capacity\<close>: the process table of the ProcessManager,
    its current-process pointer and the number of its slots;
  \<^item> \<open>timer\<close>: the timer device with its current reading, \<open>None\<close> when
    \<^verbatim>\<open>getTimer()\<close> returns \<^verbatim>\<open>ZERO\<close>;
  \<^item> \<open>hooks\<close>: the interrupt vector hooks, (vector, parameter) of each
    \<^verbatim>\<open>interruptNotify\<close> registered;
  \<^item> \<open>irqs\<close>: the enable bit of each line at the interrupt controller;
  \<^item> \<open>umem\<close>: user memory;
  \<^item> \<open>mapped\<close>: the byte addresses at which the kernel can store on behalf of the
    caller, that is, mapped user memory; the null address, unmapped addresses and the
    kernel's own data are not among them.
\<close>

record Kernel =
  procs :: "ProcessID \<rightharpoonup> Process"
  current :: ProcessID
  capacity :: nat
  timer :: "Timer_Info option"
  hooks :: "(Address \<times> ProcessID option) list"
  irqs :: "Address \<Rightarrow> bool"
  umem :: "Address \<rightharpoonup> UserObject"
  mapped :: "Address \<Rightarrow> bool"

subsection \<open>Results\<close>

text \<open>
  \<^verbatim>\<open>API::Result\<close>: the two codes the dispatcher names, and a machine word when it
  returns a process ID or a wait status in their place. The numeric values of the
  codes are declared in API.h and stay symbolic.
\<close>

datatype API_Result = Success | NotFound | ResultValue u32

text \<open>
  \<^verbatim>\<open>Process::Result\<close> as the dispatcher sees it: \<^verbatim>\<open>Process::Success\<close> or
  anything else.
\<close>

datatype Process_Result = Process_Success | Process_WakeupPending

text \<open>
  What a call of the dispatcher comes to: it dereferences a null or stale process
  pointer (undefined behaviour in C++), or it stores through a caller-supplied
  pointer that is not valid, or control never comes back from \<^verbatim>\<open>schedule()\<close>, or
  it returns a result in a new kernel state.
\<close>

datatype Outcome = NullDeref | MemoryFault | NoReturn | Return API_Result Kernel

subsection \<open>Process and ProcessManager operations\<close>

text \<open>Setters through a process pointer \<open>k\<close> that has been dereferenced.\<close>

definition update_process :: "ProcessID \<Rightarrow> (Process \<Rightarrow> Process) \<Rightarrow> Kernel \<Rightarrow> Kernel" where
  "update_process k f s =
     (case procs s k of None \<Rightarrow> s
      | Some p \<Rightarrow> s\<lparr>procs := (procs s)(k \<mapsto> f p)\<rparr>)"

text \<open>
  Modelled from the spec: \<^verbatim>\<open>ProcessManager::get\<close>, "the process for id, or not
  found if the ID is stale/unknown/out of range".
\<close>

definition get :: "Kernel \<Rightarrow> ProcessID \<Rightarrow> ProcessID option" where
  "get s i = (if procs s i = None then None else Some i)"

text \<open>
  Modelled from the spec: the control block \<^verbatim>\<open>create\<close> builds. It "seeds its
  initial CPU State to begin execution at entryPoint"; the initial state is Ready
  (section 4.2). Stacks and address space come from the memory subsystem, which is
  outside this model, and are zero here.
\<close>

definition initial_cpuState :: "Address \<Rightarrow> CPUState" where
  "initial_cpuState entry =
     \<lparr>padding = [0, 0, 0, 0], cpsr = 0, sp = 0, lr = 0,
      r0 = 0, r1 = 0, r2 = 0, r3 = 0, r4 = 0, r5 = 0, r6 = 0, r7 = 0,
      r8 = 0, r9 = 0, r10 = 0, r11 = 0, r12 = 0, pc = entry\<rparr>"

definition new_process :: "ProcessID \<Rightarrow> Address \<Rightarrow> Process" where
  "new_process i entry =
     \<lparr>m_id = i, m_parent = 0, m_state = Ready, m_cpuState = initial_cpuState entry,
      m_userStack = 0, m_kernelStack = 0, m_pageDirectory = 0, m_wait = NoWait,
      m_sleepTimer = None, m_wakeups = 0, m_events = []\<rparr>"

text \<open>
  Modelled from the spec: \<^verbatim>\<open>ProcessManager::create\<close>, which "allocates a new
  process, ..., assigns a fresh ID, returns the process; fails ... only if
  process-table capacity is exhausted". The fresh ID is the first free slot; a failed
  call returns \<^verbatim>\<open>ZERO\<close>, as \<^verbatim>\<open>get\<close> does.
\<close>

definition create :: "Address \<Rightarrow> Kernel \<Rightarrow> ProcessID option \<times> Kernel" where
  "create entry s =
     (case find (\<lambda>i. procs s (of_nat i) = None) [0..<capacity s] of
        None \<Rightarrow> (None, s)
      | Some i \<Rightarrow>
          (Some (of_nat i),
           s\<lparr>procs := (procs s)(of_nat i \<mapsto> new_process (of_nat i) entry)\<rparr>))"

text \<open>
  Modelled from the spec: \<^verbatim>\<open>ProcessManager::remove\<close>, which "releases its table
  slot, and for every process whose wait target equals process's ID: records
  exitStatus as that process's wait result and transitions it out of Waiting into
  Ready".
\<close>

definition release :: "ProcessID \<Rightarrow> u32 \<Rightarrow> Process \<Rightarrow> Process" where
  "release t status p =
     (if m_wait p = WaitFor t then p\<lparr>m_wait := ExitStatus status, m_state := Ready\<rparr>
      else p)"

definition remove :: "ProcessID \<Rightarrow> u32 \<Rightarrow> Kernel \<Rightarrow> Kernel" where
  "remove k status s =
     (case procs s k of None \<Rightarrow> s
      | Some tp \<Rightarrow>
          s\<lparr>procs := (\<lambda>i. if i = k then None
                          else map_option (release (m_id tp) status) (procs s i))\<rparr>)"

text \<open>
  Modelled from the spec: \<^verbatim>\<open>Process::wakeup\<close>. The Resume arm's comment reads
  "increment wakeup counter and set process ready"; the spec's table says
  "increments target's wakeup counter, forces Ready".
\<close>

definition wakeup :: "Process \<Rightarrow> Process" where
  "wakeup p = p\<lparr>m_wakeups := Suc (m_wakeups p), m_state := Ready\<rparr>"

text \<open>
  Modelled from the spec: \<^verbatim>\<open>Process::sleep\<close>. "EnterSleep first checks the
  pending-wakeup counter - if a wakeup already arrived, the process stays Ready and
  does not sleep at all"; otherwise the process is Sleeping and the deadline is
  recorded. The pending wakeups are consumed by the call that finds them.
\<close>

definition sleep :: "Timer_Info option \<Rightarrow> Process \<Rightarrow> Process_Result \<times> Process" where
  "sleep t p =
     (if m_wakeups p = 0
      then (Process_Success, p\<lparr>m_state := Sleeping, m_sleepTimer := t\<rparr>)
      else (Process_WakeupPending, p\<lparr>m_wakeups := 0\<rparr>))"

text \<open>
  Modelled from the spec: \<^verbatim>\<open>Process::raiseEvent\<close>, which "appends event to the
  process's pending-event queue".
\<close>

definition raiseEvent :: "ProcessEvent \<Rightarrow> Process \<Rightarrow> Process" where
  "raiseEvent e p = p\<lparr>m_events := m_events p @ [e]\<rparr>"

text \<open>
  Modelled from the spec: \<^verbatim>\<open>Kernel::hookIntVector\<close> and \<^verbatim>\<open>Kernel::enableIRQ\<close>.
  \<^verbatim>\<open>WatchIRQ\<close> "registers target to receive a ProcessEvent when IRQ arg fires";
  \<^verbatim>\<open>EnableIRQ\<close>/\<^verbatim>\<open>DisableIRQ\<close> toggle "interrupt line arg at the controller".
\<close>

definition hookIntVector :: "Address \<Rightarrow> ProcessID option \<Rightarrow> Kernel \<Rightarrow> Kernel" where
  "hookIntVector vec param s = s\<lparr>hooks := hooks s @ [(vec, param)]\<rparr>"

definition enableIRQ :: "Address \<Rightarrow> bool \<Rightarrow> Kernel \<Rightarrow> Kernel" where
  "enableIRQ line enabled s = s\<lparr>irqs := (irqs s)(line := enabled)\<rparr>"

text \<open>
  The sizes of the two structs the dispatcher stores through \<^verbatim>\<open>addr\<close>, in bytes:
  the six members the \<^verbatim>\<open>InfoPID\<close> arm assigns and the two of the timer value,
  one 32-bit word each. The declarations are in ProcessCtl.h and Timer.h.
\<close>

definition sizeof_ProcessInfo :: nat where
  "sizeof_ProcessInfo = 24"

definition sizeof_Timer_Info :: nat where
  "sizeof_Timer_Info = 8"

text \<open>
  A pointer is valid for a store of \<open>n\<close> bytes when the \<open>n\<close> bytes from it on lie
  in mapped user memory, without wrapping around the address space. The dispatcher
  does not test the pointer: a store through an invalid one is a fault, a store
  through a valid one replaces the object that starts there.
\<close>

definition writable_range :: "Kernel \<Rightarrow> Address \<Rightarrow> nat \<Rightarrow> bool" where
  "writable_range s a n =
     (unat a + n \<le> 2 ^ 32 \<and> list_all (\<lambda>i. mapped s (a + of_nat i)) [0..<n])"

definition store_object :: "Address \<Rightarrow> nat \<Rightarrow> UserObject \<Rightarrow> Kernel \<Rightarrow> Kernel option" where
  "store_object a n obj s =
     (if writable_range s a n then Some (s\<lparr>umem := (umem s)(a \<mapsto> obj)\<rparr>) else None)"

text \<open>Reading a \<^verbatim>\<open>Timer::Info\<close> through a caller-supplied pointer.\<close>

definition read_timer :: "Kernel \<Rightarrow> Address \<Rightarrow> Timer_Info option" where
  "read_timer s a = (case umem s a of Some (TimerObject t) \<Rightarrow> Some t | _ \<Rightarrow> None)"

text \<open>
  Dereferencing a process pointer and going on with the process it points to; a
  \<^verbatim>\<open>ZERO\<close> or stale pointer is the fault.
\<close>

definition with_process :: "Kernel \<Rightarrow> ProcessID option \<Rightarrow> (ProcessID \<Rightarrow> Process \<Rightarrow> Outcome) \<Rightarrow> Outcome" where
  "with_process s ptr f =
     (case ptr of None \<Rightarrow> NullDeref
      | Some k \<Rightarrow> (case procs s k of None \<Rightarrow> NullDeref | Some p \<Rightarrow> f k p))"

text \<open>
  Modelled from the spec: the context switch inside \<^verbatim>\<open>schedule()\<close>, which
  "selects the next Ready process ... and switches context to it" (Ready to Running);
  a process that was Running goes back to Ready. \<open>switched n s\<close> is the state
  once \<open>n\<close> runs.
\<close>

definition switched :: "ProcessID \<Rightarrow> Kernel \<Rightarrow> Kernel" where
  "switched n s =
     (update_process n (\<lambda>q. q\<lparr>m_state := Running\<rparr>)
        (update_process (current s)
           (\<lambda>q. if m_state q = Running then q\<lparr>m_state := Ready\<rparr> else q) s))
     \<lparr>current := n\<rparr>"

text \<open>The scheduler selecting \<open>n\<close>: possible for a Ready process only.\<close>

definition switch_to :: "ProcessID \<Rightarrow> Kernel \<Rightarrow> Kernel option" where
  "switch_to n s =
     (case procs s n of None \<Rightarrow> None
      | Some p \<Rightarrow> if m_state p = Ready then Some (switched n s) else None)"

subsection \<open>interruptNotify\<close>

text \<open>
  \<^verbatim>\<open>event.type = InterruptEvent; event.number = IRQ_REG(st); p->raiseEvent(&event);\<close>
  The pointer \<open>p\<close> is the one registered by \<^verbatim>\<open>WatchIRQ\<close>; \<open>None\<close> when it no
  longer points to a process.
\<close>

definition interruptNotify :: "CPUState \<Rightarrow> ProcessID option \<Rightarrow> Kernel \<Rightarrow> Kernel option" where
  "interruptNotify st p s =
     (let event = \<lparr>event_type = InterruptEvent, event_number = IRQ_REG st\<rparr>
      in case p of None \<Rightarrow> None
         | Some k \<Rightarrow>
             (case procs s k of None \<Rightarrow> None
              | Some pr \<Rightarrow> Some (update_process k (raiseEvent event) s)))"

text \<open>
  Modelled from the spec: the interrupt entry of the kernel, which "identif[ies] the
  IRQ number and invoke[s] interrupt delivery": every hook registered for the vector
  that fired is called with the saved state and its parameter.
\<close>

fun run_hooks :: "(Address \<times> ProcessID option) list \<Rightarrow> Address \<Rightarrow> CPUState \<Rightarrow> Kernel \<Rightarrow> Kernel option" where
  "run_hooks [] vec st s = Some s"
| "run_hooks ((v, p) # hs) vec st s =
     (if v = vec
      then (case interruptNotify st p s of None \<Rightarrow> None
            | Some s' \<Rightarrow> run_hooks hs vec st s')
      else run_hooks hs vec st s)"

definition executeIntVector :: "Address \<Rightarrow> CPUState \<Rightarrow> Kernel \<Rightarrow> Kernel option" where
  "executeIntVector vec st s = run_hooks (hooks s) vec st s"

subsection \<open>ProcessCtlHandler\<close>

datatype ProcessOperation =
    Spawn | KillPID | GetPID | GetParent | WatchIRQ | EnableIRQ | DisableIRQ
  | InfoPID | WaitPID | InfoTimer | WaitTimer | EnterSleep | Schedule | Resume
  | SetStack

text \<open>
  The process a call is aimed at: the caller for the sentinel \<open>SELF\<close> of the API
  headers, the process of that ID otherwise.
\<close>

definition target :: "ProcessID \<Rightarrow> ProcessID \<Rightarrow> Kernel \<Rightarrow> ProcessID" where
  "target SELF procID s = (if procID = SELF then current s else procID)"

text \<open>
  The first step of the handler: the target pointer \<^verbatim>\<open>proc\<close>. The outer \<open>None\<close>
  is the early \<^verbatim>\<open>return API::NotFound\<close>; \<open>Some None\<close> is \<^verbatim>\<open>proc\<close> left
  \<^verbatim>\<open>ZERO\<close> for GetPID and Spawn.
\<close>

definition resolve :: "ProcessID \<Rightarrow> ProcessID \<Rightarrow> ProcessOperation \<Rightarrow> Kernel \<Rightarrow> ProcessID option option" where
  "resolve SELF procID action s =
     (if action \<noteq> GetPID \<and> action \<noteq> Spawn
      then (if procID = SELF then Some (Some (current s))
            else (case get s procID of None \<Rightarrow> None | Some k \<Rightarrow> Some (Some k)))
      else Some None)"

text \<open>The six assignments of the \<^verbatim>\<open>InfoPID\<close> arm.\<close>

definition snapshot :: "Process \<Rightarrow> ProcessInfo" where
  "snapshot p =
     \<lparr>info_id = m_id p, info_state = m_state p, info_userStack = m_userStack p,
      info_kernelStack = m_kernelStack p, info_pageDirectory = m_pageDirectory p,
      info_parent = m_parent p\<rparr>"

text \<open>
  The two assignments of the \<^verbatim>\<open>WaitPID\<close> arm before it calls the scheduler:
  \<^verbatim>\<open>procs->current()->setWait(id); procs->current()->setState(Process::Waiting);\<close>
\<close>

definition enter_wait :: "ProcessID \<Rightarrow> Kernel \<Rightarrow> Kernel" where
  "enter_wait t s =
     update_process (current s) (\<lambda>c. c\<lparr>m_state := Waiting\<rparr>)
       (update_process (current s) (\<lambda>c. c\<lparr>m_wait := WaitFor t\<rparr>) s)"

text \<open>
  The switch of the handler, one arm per \<^verbatim>\<open>case\<close>, in the order of the source.
  \<open>schedule\<close> is \<^verbatim>\<open>ProcessManager::schedule\<close> as the calling process sees it:
  everything that happens from the context switch until this process runs again, or
  \<open>None\<close> when it never does. \<open>output\<close> is the fourth parameter of the source.
\<close>

definition dispatch :: "(Kernel \<Rightarrow> Kernel option) \<Rightarrow> ProcessID option \<Rightarrow> ProcessOperation \<Rightarrow> Address \<Rightarrow> Address \<Rightarrow> Kernel \<Rightarrow> Outcome" where
  "dispatch schedule proc action addr output s =
     (case action of
        Spawn \<Rightarrow>
          (case create addr s of
             (new, s1) \<Rightarrow>
               with_process s1 new (\<lambda>n np.
                 with_process s1 (Some (current s1)) (\<lambda>c cp.
                   let s2 = update_process n (\<lambda>p. p\<lparr>m_parent := m_id cp\<rparr>) s1
                   in with_process s2 new (\<lambda>n np'. Return (ResultValue (m_id np')) s2))))
      | KillPID \<Rightarrow>
          with_process s proc (\<lambda>k p.
            case schedule (remove k addr s) of None \<Rightarrow> NoReturn
            | Some s' \<Rightarrow> Return Success s')
      | GetPID \<Rightarrow>
          with_process s (Some (current s)) (\<lambda>c cp. Return (ResultValue (m_id cp)) s)
      | GetParent \<Rightarrow>
          with_process s (Some (current s)) (\<lambda>c cp. Return (ResultValue (m_parent cp)) s)
      | Schedule \<Rightarrow>
          (case schedule s of None \<Rightarrow> NoReturn | Some s' \<Rightarrow> Return Success s')
      | Resume \<Rightarrow>
          with_process s proc (\<lambda>k p. Return Success (update_process k wakeup s))
      | WatchIRQ \<Rightarrow> Return Success (hookIntVector (IRQ addr) proc s)
      | EnableIRQ \<Rightarrow> Return Success (enableIRQ addr True s)
      | DisableIRQ \<Rightarrow> Return Success (enableIRQ addr False s)
      | InfoPID \<Rightarrow>
          with_process s proc (\<lambda>k p.
            case store_object addr sizeof_ProcessInfo (InfoObject (snapshot p)) s of
              None \<Rightarrow> MemoryFault
            | Some s' \<Rightarrow> Return Success s')
      | WaitPID \<Rightarrow>
          with_process s proc (\<lambda>k p.
            with_process s (Some (current s)) (\<lambda>c cp.
              case schedule (enter_wait (m_id p) s) of None \<Rightarrow> NoReturn
              | Some s3 \<Rightarrow>
                  with_process s3 (Some (current s3)) (\<lambda>c' cp'.
                    Return (ResultValue (wait_word (m_wait cp'))) s3)))
      | InfoTimer \<Rightarrow>
          (case timer s of None \<Rightarrow> Return NotFound s
           | Some t \<Rightarrow>
               (case store_object addr sizeof_Timer_Info (TimerObject t) s of
                  None \<Rightarrow> MemoryFault
                | Some s' \<Rightarrow> Return Success s'))
      | WaitTimer \<Rightarrow>
          with_process s (Some (current s)) (\<lambda>c cp.
            let s1 = update_process c (\<lambda>q. q\<lparr>m_sleepTimer := read_timer s addr\<rparr>) s;
                s2 = update_process (current s1) (\<lambda>q. q\<lparr>m_state := Sleeping\<rparr>) s1
            in case schedule s2 of None \<Rightarrow> NoReturn
               | Some s3 \<Rightarrow> Return Success s3)
      | EnterSleep \<Rightarrow>
          with_process s (Some (current s)) (\<lambda>c cp.
            let s1 = update_process c (\<lambda>q. snd (sleep (read_timer s addr) q)) s
            in if fst (sleep (read_timer s addr) cp) = Process_Success
               then (case schedule s1 of None \<Rightarrow> NoReturn
                     | Some s2 \<Rightarrow> Return Success s2)
               else Return Success s1)
      | SetStack \<Rightarrow>
          with_process s proc (\<lambda>k p.
            Return Success (update_process k (\<lambda>q. q\<lparr>m_userStack := addr\<rparr>) s)))"

text \<open>
  \<^verbatim>\<open>ProcessCtlHandler(procID, action, addr, output)\<close>: the target check, then the
  switch. The \<^verbatim>\<open>DEBUG\<close> line writes to the log only and is left out.
\<close>

definition ProcessCtlHandler :: "ProcessID \<Rightarrow> (Kernel \<Rightarrow> Kernel option) \<Rightarrow> ProcessID \<Rightarrow> ProcessOperation \<Rightarrow> Address \<Rightarrow> Address \<Rightarrow> Kernel \<Rightarrow> Outcome" where
  "ProcessCtlHandler SELF schedule procID action addr output s =
     (case resolve SELF procID action s of
        None \<Rightarrow> Return NotFound s
      | Some proc \<Rightarrow> dispatch schedule proc action addr output s)"

subsection \<open>Observations on a state\<close>

definition pending_events :: "ProcessID \<Rightarrow> Kernel option \<Rightarrow> ProcessEvent list option" where
  "pending_events k so =
     (case so of None \<Rightarrow> None
      | Some s \<Rightarrow> (case procs s k of None \<Rightarrow> None | Some p \<Rightarrow> Some (m_events p)))"



subsection \<open>The wait-target invariant of the data model\<close>

text \<open>
  "A process with a wait target must be in the Waiting state and vice versa", over
  every process of the table.
\<close>

definition has_wait_target :: "Process \<Rightarrow> bool" where
  "has_wait_target p = (case m_wait p of WaitFor t \<Rightarrow> True | _ \<Rightarrow> False)"

definition wait_invariant :: "Kernel \<Rightarrow> bool" where
  "wait_invariant s =
     (\<forall>k p. procs s k = Some p \<longrightarrow> (has_wait_target p \<longleftrightarrow> m_state p = Waiting))"

subsection \<open>The rest of the system while a caller is switched out\<close>







subsection \<open>Example states\<close>

text \<open>
  A kernel of three slots with two processes: process 0 is running, process 1 is
  ready; the addresses from 4096 up to 16384 are mapped user memory.
  \<open>full_kernel\<close> is the same table with two slots only. In \<open>later_kernel\<close>
  process 1 runs and process 0 is ready. In \<open>info_kernel\<close> process 1 has a parent,
  stacks and a page directory that differ from each other and from zero.
\<close>

definition example_process :: "ProcessID \<Rightarrow> State \<Rightarrow> Process" where
  "example_process i st = (new_process i 32768)\<lparr>m_state := st\<rparr>"

definition example_kernel :: Kernel where
  "example_kernel =
     \<lparr>procs = [0 \<mapsto> example_process 0 Running, 1 \<mapsto> example_process 1 Ready],
      current = 0, capacity = 3, timer = Some \<lparr>ticks = 100, frequency = 250\<rparr>,
      hooks = [], irqs = (\<lambda>l. False), umem = Map.empty,
      mapped = (\<lambda>a. 4096 \<le> a \<and> a < 16384)\<rparr>"

definition full_kernel :: Kernel where
  "full_kernel = example_kernel\<lparr>capacity := 2\<rparr>"

definition later_kernel :: Kernel where
  "later_kernel =
     example_kernel\<lparr>procs := [0 \<mapsto> example_process 0 Ready, 1 \<mapsto> example_process 1 Running],
                    current := 1\<rparr>"

definition info_process :: Process where
  "info_process =
     (example_process 1 Ready)\<lparr>m_parent := 7, m_userStack := 3221225472,
        m_kernelStack := 3489660928, m_pageDirectory := 3145728\<rparr>"

definition info_kernel :: Kernel where
  "info_kernel =
     example_kernel\<lparr>procs := [0 \<mapsto> example_process 0 Running, 1 \<mapsto> info_process]\<rparr>"

section \<open>Properties of the dispatcher\<close>

subsection \<open>Auxiliary facts\<close>

lemmas handler_defs = ProcessCtlHandler_def resolve_def dispatch_def with_process_def
  get_def update_process_def target_def

lemmas example_defs = example_kernel_def example_process_def new_process_def

lemma dispatch_output:
  "dispatch schedule proc action addr output s = dispatch schedule proc action addr output' s"
  by (simp add: dispatch_def)

lemma resolve_target:
  "action \<noteq> GetPID \<Longrightarrow> action \<noteq> Spawn \<Longrightarrow> procs s (target SELF procID s) = Some p \<Longrightarrow>
   resolve SELF procID action s = Some (Some (target SELF procID s))"
  by (auto simp: resolve_def target_def get_def split: if_splits)

lemma dispatch_umem:
  "dispatch Some proc action addr output s = Return r s' \<Longrightarrow> a \<noteq> addr \<Longrightarrow> umem s' a = umem s a"
  by (cases action)
     (auto simp: dispatch_def with_process_def update_process_def create_def remove_def
        hookIntVector_def enableIRQ_def enter_wait_def store_object_def Let_def
      split: option.splits if_splits)

lemma example_writable:
  "writable_range example_kernel 4096 sizeof_ProcessInfo"
  "writable_range info_kernel 4096 sizeof_ProcessInfo"
  by (simp_all add: writable_range_def sizeof_ProcessInfo_def info_kernel_def
        example_kernel_def upt_rec)

lemma InfoPID_store:
  assumes "procs s (target SELF procID s) = Some p"
  shows "ProcessCtlHandler SELF schedule procID InfoPID addr output s =
           (if writable_range s addr sizeof_ProcessInfo
            then Return Success (s\<lparr>umem := (umem s)(addr \<mapsto> InfoObject (snapshot p))\<rparr>)
            else MemoryFault)"
  using assms
  by (simp add: ProcessCtlHandler_def resolve_target dispatch_def with_process_def
        store_object_def)

lemma example_InfoPID:
  "ProcessCtlHandler 65534 Some 1 InfoPID 4096 output example_kernel =
     Return Success
       (example_kernel\<lparr>umem := (umem example_kernel)
          (4096 \<mapsto> InfoObject (snapshot (example_process 1 Ready)))\<rparr>)"
proof -
  have "procs example_kernel (target 65534 1 example_kernel) = Some (example_process 1 Ready)"
    by (simp add: target_def example_kernel_def)
  then show ?thesis
    by (simp add: InfoPID_store example_writable)
qed

lemma create_Some:
  assumes "create entry s = (Some n, s1)"
  shows "procs s n = None \<and> s1 = s\<lparr>procs := (procs s)(n \<mapsto> new_process n entry)\<rparr>"
proof -
  from assms obtain i where f: "find (\<lambda>i. procs s (of_nat i) = None) [0..<capacity s] = Some i"
    and n: "n = of_nat i"
    and s1: "s1 = s\<lparr>procs := (procs s)(of_nat i \<mapsto> new_process (of_nat i) entry)\<rparr>"
    by (auto simp: create_def split: option.splits)
  from f have "procs s (of_nat i) = None" by (auto simp: find_Some_iff)
  with n s1 show ?thesis by simp
qed

subsection \<open>Unknown targets\<close>

text \<open>
  Claim C2. For every operation other than Spawn and GetPID, when the target ID is
  not the SELF sentinel and is not in the process table, the handler returns NotFound
  in the very state it was called in: no process, hook, interrupt line or user buffer
  has changed, whatever the address arguments are (InfoPID writes nothing).
\<close>

theorem unknown_target_NotFound:
  assumes "action \<noteq> Spawn" and "action \<noteq> GetPID"
      and "procID \<noteq> SELF" and "procs s procID = None"
  shows "ProcessCtlHandler SELF schedule procID action addr output s = Return NotFound s"
  using assms by (simp add: ProcessCtlHandler_def resolve_def get_def)

theorem unknown_target_NotFound_witness:
  "InfoPID \<noteq> Spawn \<and> InfoPID \<noteq> GetPID \<and> (7 :: ProcessID) \<noteq> 65534 \<and>
   procs example_kernel 7 = None \<and>
   ProcessCtlHandler 65534 Some 7 InfoPID 4096 8192 example_kernel
     = Return NotFound example_kernel"
  using unknown_target_NotFound [of InfoPID 7 65534 example_kernel Some 4096 8192]
  by (simp add: example_kernel_def)

subsection \<open>Spawn\<close>

text \<open>
  \<^verbatim>\<open>create\<close> fails exactly when every slot of the table is taken. The Spawn arm
  then dereferences the pointer it got; when it returns at all, its result is a
  process ID, never one of the result codes.
\<close>

lemma create_fails_iff:
  "fst (create entry s) = None \<longleftrightarrow> (\<forall>i < capacity s. procs s (of_nat i) \<noteq> None)"
proof
  assume "fst (create entry s) = None"
  then have "find (\<lambda>i. procs s (of_nat i) = None) [0..<capacity s] = None"
    by (simp add: create_def split: option.splits)
  then show "\<forall>i < capacity s. procs s (of_nat i) \<noteq> None"
    by (simp add: find_None_iff)
next
  assume "\<forall>i < capacity s. procs s (of_nat i) \<noteq> None"
  then have "find (\<lambda>i. procs s (of_nat i) = None) [0..<capacity s] = None"
    by (simp add: find_None_iff)
  then show "fst (create entry s) = None"
    by (simp add: create_def)
qed

lemma Spawn_create_fails:
  "fst (create addr s) = None \<Longrightarrow>
   ProcessCtlHandler SELF schedule procID Spawn addr output s = NullDeref"
  by (cases "create addr s")
     (simp add: ProcessCtlHandler_def resolve_def dispatch_def with_process_def)

lemma Spawn_result_is_ID:
  "ProcessCtlHandler SELF schedule procID Spawn addr output s = Return r s' \<Longrightarrow>
   \<exists>n. r = ResultValue n"
  by (cases "create addr s")
     (auto simp: ProcessCtlHandler_def resolve_def dispatch_def with_process_def Let_def
        split: option.splits)

text \<open>
  Claim C3. With a full process table \<^verbatim>\<open>create\<close> fails and returns no process;
  the Spawn arm does not test the pointer and dereferences it in
  \<^verbatim>\<open>proc->setParent\<close>. In the full example table the call ends in the fault, not
  in an error result.
\<close>

theorem Spawn_full_table_faults:
  "create 4096 full_kernel = (None, full_kernel) \<and>
   ProcessCtlHandler 65534 Some 65534 Spawn 4096 0 full_kernel = NullDeref"
  by (simp add: handler_defs full_kernel_def example_kernel_def create_def upt_rec)

text \<open>
  Claim C7. A Spawn by an existing caller returns exactly when \<^verbatim>\<open>create\<close>
  succeeds. It then returns the ID of the new process, which was not in the table
  before, and the table afterwards holds under that ID the process \<^verbatim>\<open>create\<close>
  built with the caller's ID as its parent; nothing else has changed. Once that
  process runs, GetParent returns the caller's ID to it.
\<close>

theorem Spawn_sets_parent:
  assumes cur: "procs s (current s) = Some cp"
  shows "((\<exists>r s'. ProcessCtlHandler SELF schedule procID Spawn addr output s = Return r s')
            \<longleftrightarrow> fst (create addr s) \<noteq> None) \<and>
         (\<forall>n. fst (create addr s) = Some n \<longrightarrow>
            procs s n = None \<and>
            ProcessCtlHandler SELF schedule procID Spawn addr output s =
              Return (ResultValue n)
                (s\<lparr>procs := (procs s)(n \<mapsto> (new_process n addr)\<lparr>m_parent := m_id cp\<rparr>)\<rparr>) \<and>
            m_id ((new_process n addr)\<lparr>m_parent := m_id cp\<rparr>) = n \<and>
            ProcessCtlHandler SELF schedule' SELF GetParent addr' output'
                (s\<lparr>procs := (procs s)(n \<mapsto> (new_process n addr)\<lparr>m_parent := m_id cp\<rparr>),
                   current := n\<rparr>) =
              Return (ResultValue (m_id cp))
                (s\<lparr>procs := (procs s)(n \<mapsto> (new_process n addr)\<lparr>m_parent := m_id cp\<rparr>),
                   current := n\<rparr>))"
proof -
  have ok: "procs s n = None \<and>
            ProcessCtlHandler SELF schedule procID Spawn addr output s =
              Return (ResultValue n)
                (s\<lparr>procs := (procs s)(n \<mapsto> (new_process n addr)\<lparr>m_parent := m_id cp\<rparr>)\<rparr>)"
    if n: "fst (create addr s) = Some n" for n
  proof -
    obtain s1 where c: "create addr s = (Some n, s1)"
      using n by (cases "create addr s") simp
    then have free: "procs s n = None"
      and s1: "s1 = s\<lparr>procs := (procs s)(n \<mapsto> new_process n addr)\<rparr>"
      using create_Some by blast+
    from free cur have ne: "current s \<noteq> n" by auto
    from c s1 cur ne free show ?thesis
      by (simp add: ProcessCtlHandler_def resolve_def dispatch_def with_process_def
            update_process_def new_process_def)
  qed
  have none: "ProcessCtlHandler SELF schedule procID Spawn addr output s = NullDeref"
    if "fst (create addr s) = None"
    using that by (rule Spawn_create_fails)
  have iff: "(\<exists>r s'. ProcessCtlHandler SELF schedule procID Spawn addr output s = Return r s')
            \<longleftrightarrow> fst (create addr s) \<noteq> None"
  proof (cases "fst (create addr s)")
    case None
    with none show ?thesis by simp
  next
    case (Some n)
    with ok [OF Some] show ?thesis by simp
  qed
  have parent: "ProcessCtlHandler SELF schedule' SELF GetParent addr' output'
                (s\<lparr>procs := (procs s)(n \<mapsto> (new_process n addr)\<lparr>m_parent := m_id cp\<rparr>),
                   current := n\<rparr>) =
              Return (ResultValue (m_id cp))
                (s\<lparr>procs := (procs s)(n \<mapsto> (new_process n addr)\<lparr>m_parent := m_id cp\<rparr>),
                   current := n\<rparr>)" for n
    by (simp add: ProcessCtlHandler_def resolve_def dispatch_def with_process_def)
  from iff ok parent show ?thesis
    by (simp add: new_process_def)
qed

text \<open>
  The witness: process 1 runs and spawns; the new process takes slot 2 and has
  parent 1.
\<close>

theorem Spawn_sets_parent_witness:
  "ProcessCtlHandler 65534 Some 65534 Spawn 4096 0 later_kernel =
     Return (ResultValue 2)
       (later_kernel\<lparr>procs := (procs later_kernel)(2 \<mapsto> (new_process 2 4096)\<lparr>m_parent := 1\<rparr>)\<rparr>) \<and>
   procs later_kernel 2 = None \<and>
   ProcessCtlHandler 65534 (\<lambda>x. None) 65534 GetParent 0 0
       (later_kernel\<lparr>procs := (procs later_kernel)(2 \<mapsto> (new_process 2 4096)\<lparr>m_parent := 1\<rparr>),
          current := 2\<rparr>) =
     Return (ResultValue 1)
       (later_kernel\<lparr>procs := (procs later_kernel)(2 \<mapsto> (new_process 2 4096)\<lparr>m_parent := 1\<rparr>),
          current := 2\<rparr>)"
proof -
  have cur: "procs later_kernel (current later_kernel) = Some (example_process 1 Running)"
    by (simp add: later_kernel_def example_kernel_def)
  have new: "fst (create 4096 later_kernel) = Some 2"
    by (simp add: create_def later_kernel_def example_kernel_def upt_rec)
  have id1: "m_id (example_process 1 Running) = 1"
    by (simp add: example_defs)
  from Spawn_sets_parent [OF cur, of 65534 Some 65534 4096 0 "\<lambda>x. None" 0 0] new
  show ?thesis
    by (simp add: id1)
qed

subsection \<open>InfoPID and the two address arguments\<close>

text \<open>
  Claim C6, as the claim states it, at an input: InfoPID on process 1 with
  \<^verbatim>\<open>addr\<close> = 4096 and \<^verbatim>\<open>output\<close> = 8192 does not come to the state in which the
  snapshot of process 1 lies at \<^verbatim>\<open>output\<close>.
\<close>

theorem InfoPID_not_written_to_output:
  "ProcessCtlHandler 65534 Some 1 InfoPID 4096 8192 example_kernel \<noteq>
     Return Success
       (example_kernel\<lparr>umem := (umem example_kernel)
          (8192 \<mapsto> InfoObject (snapshot (example_process 1 Ready)))\<rparr>)"
proof
  assume "ProcessCtlHandler 65534 Some 1 InfoPID 4096 8192 example_kernel =
     Return Success
       (example_kernel\<lparr>umem := (umem example_kernel)
          (8192 \<mapsto> InfoObject (snapshot (example_process 1 Ready)))\<rparr>)"
  then have "umem (example_kernel\<lparr>umem := (umem example_kernel)
                 (4096 \<mapsto> InfoObject (snapshot (example_process 1 Ready)))\<rparr>) 8192
     = umem (example_kernel\<lparr>umem := (umem example_kernel)
                 (8192 \<mapsto> InfoObject (snapshot (example_process 1 Ready)))\<rparr>) 8192"
    by (simp add: example_InfoPID)
  then show False by (simp add: example_kernel_def)
qed

text \<open>
  Claim C6, amended. For an InfoPID call whose target exists and whose third argument
  \<^verbatim>\<open>addr\<close> is a valid pointer to a ProcessInfo buffer (the bytes of the struct
  lie in mapped user memory), the handler writes the snapshot of the target (id,
  state, user stack, kernel stack, page directory, parent) to \<^verbatim>\<open>addr\<close>, changes
  nothing else, and returns Success. The handler does not test the pointer: through
  an invalid \<^verbatim>\<open>addr\<close> the call faults. Nothing is written to the fourth argument.
\<close>

theorem InfoPID_writes_snapshot_to_addr:
  assumes "procs s (target SELF procID s) = Some p"
  shows "ProcessCtlHandler SELF schedule procID InfoPID addr output s =
           (if writable_range s addr sizeof_ProcessInfo
            then Return Success (s\<lparr>umem := (umem s)(addr \<mapsto> InfoObject (snapshot p))\<rparr>)
            else MemoryFault)"
  using assms by (rule InfoPID_store)

text \<open>
  The witness: InfoPID on process 1 of \<open>info_kernel\<close>, whose six fields all differ,
  with \<^verbatim>\<open>addr\<close> = 4096 (valid) and with the null pointer.
\<close>

theorem InfoPID_writes_snapshot_to_addr_witness:
  "ProcessCtlHandler 65534 Some 1 InfoPID 4096 8192 info_kernel =
     Return Success
       (info_kernel\<lparr>umem := (umem info_kernel)
          (4096 \<mapsto> InfoObject
             \<lparr>info_id = 1, info_state = Ready, info_userStack = 3221225472,
              info_kernelStack = 3489660928, info_pageDirectory = 3145728,
              info_parent = 7\<rparr>)\<rparr>) \<and>
   ProcessCtlHandler 65534 Some 1 InfoPID 0 8192 info_kernel = MemoryFault"
proof -
  have tgt: "procs info_kernel (target 65534 1 info_kernel) = Some info_process"
    by (simp add: target_def info_kernel_def example_kernel_def)
  have null: "\<not> writable_range info_kernel 0 sizeof_ProcessInfo"
    by (simp add: writable_range_def sizeof_ProcessInfo_def info_kernel_def
          example_kernel_def upt_rec)
  from InfoPID_writes_snapshot_to_addr [OF tgt, of Some 4096 8192]
       InfoPID_writes_snapshot_to_addr [OF tgt, of Some 0 8192] null
  show ?thesis
    by (simp add: example_writable snapshot_def info_process_def example_defs)
qed

text \<open>
  Claim C10. The fourth parameter \<^verbatim>\<open>output\<close> has no influence: two calls that
  differ in it only have the same outcome, result and state. And no call writes
  through it: taking the dispatcher's own effect (a scheduler that returns at once),
  user memory at \<^verbatim>\<open>output\<close> is as before, unless it is the address \<^verbatim>\<open>addr\<close>.
\<close>

theorem output_parameter_unused:
  "ProcessCtlHandler SELF schedule procID action addr output s
     = ProcessCtlHandler SELF schedule procID action addr output' s \<and>
   (ProcessCtlHandler SELF Some procID action addr output s = Return r s' \<longrightarrow>
      output \<noteq> addr \<longrightarrow> umem s' output = umem s output)"
proof
  show "ProcessCtlHandler SELF schedule procID action addr output s
     = ProcessCtlHandler SELF schedule procID action addr output' s"
    by (simp add: ProcessCtlHandler_def dispatch_output [of _ _ _ _ "output" _ "output'"]
          split: option.splits)
  show "ProcessCtlHandler SELF Some procID action addr output s = Return r s' \<longrightarrow>
      output \<noteq> addr \<longrightarrow> umem s' output = umem s output"
    by (auto simp: ProcessCtlHandler_def split: option.splits dest: dispatch_umem)
qed

theorem output_parameter_unused_witness:
  "ProcessCtlHandler 65534 Some 1 InfoPID 4096 8192 example_kernel
     = ProcessCtlHandler 65534 Some 1 InfoPID 4096 12288 example_kernel \<and>
   ProcessCtlHandler 65534 Some 1 InfoPID 4096 8192 example_kernel =
     Return Success
       (example_kernel\<lparr>umem := (umem example_kernel)
          (4096 \<mapsto> InfoObject (snapshot (example_process 1 Ready)))\<rparr>) \<and>
   umem (example_kernel\<lparr>umem := (umem example_kernel)
           (4096 \<mapsto> InfoObject (snapshot (example_process 1 Ready)))\<rparr>) 8192
     = umem example_kernel 8192"
proof -
  have ret: "ProcessCtlHandler 65534 Some 1 InfoPID 4096 8192 example_kernel =
     Return Success
       (example_kernel\<lparr>umem := (umem example_kernel)
          (4096 \<mapsto> InfoObject (snapshot (example_process 1 Ready)))\<rparr>)"
    by (rule example_InfoPID)
  have ne: "(8192 :: Address) \<noteq> 4096" by simp
  from output_parameter_unused [of 65534 Some 1 InfoPID 4096 8192 example_kernel 12288
      Success "example_kernel\<lparr>umem := (umem example_kernel)
          (4096 \<mapsto> InfoObject (snapshot (example_process 1 Ready)))\<rparr>"] ret ne
  show ?thesis by blast
qed

subsection \<open>SetStack\<close>

text \<open>
  Claim C9. SetStack on an existing target returns Success in the state that differs
  from the one before in the target's user-stack pointer only, which is \<^verbatim>\<open>addr\<close>:
  the target's other fields, every other process and the rest of the kernel state are
  the same.
\<close>

theorem SetStack_frame:
  assumes "procs s (target SELF procID s) = Some p"
  shows "ProcessCtlHandler SELF schedule procID SetStack addr output s =
           Return Success
             (s\<lparr>procs := (procs s)(target SELF procID s \<mapsto> p\<lparr>m_userStack := addr\<rparr>)\<rparr>)"
  using assms
  by (simp add: ProcessCtlHandler_def resolve_target dispatch_def with_process_def
        update_process_def)

theorem SetStack_frame_witness:
  "procs example_kernel (target 65534 1 example_kernel) = Some (example_process 1 Ready) \<and>
   ProcessCtlHandler 65534 (\<lambda>x. None) 1 SetStack 49152 0 example_kernel =
     Return Success
       (example_kernel\<lparr>procs := (procs example_kernel)
          (1 \<mapsto> (example_process 1 Ready)\<lparr>m_userStack := 49152\<rparr>)\<rparr>)"
proof -
  have tgt: "procs example_kernel (target 65534 1 example_kernel) = Some (example_process 1 Ready)"
    by (simp add: target_def example_kernel_def)
  from SetStack_frame [OF tgt, of "\<lambda>x. None" 49152 0] tgt show ?thesis
    by (simp add: target_def)
qed

subsection \<open>Interrupt events\<close>

text \<open>
  Whatever the saved state and the vector, \<^verbatim>\<open>interruptNotify\<close> appends the event
  (InterruptEvent, 0) to the queue of the process it is given.
\<close>

lemma interruptNotify_event:
  "procs s k = Some p \<Longrightarrow>
   interruptNotify st (Some k) s =
     Some (s\<lparr>procs := (procs s)(k \<mapsto>
        p\<lparr>m_events := m_events p @ [\<lparr>event_type = InterruptEvent, event_number = 0\<rparr>]\<rparr>)\<rparr>)"
  by (simp add: interruptNotify_def IRQ_REG_def update_process_def raiseEvent_def)

text \<open>
  Claim C4. Process 0 registers for line 5 with WatchIRQ; line 5 fires and the hooks
  of vector 5 run. The event the process then holds has type InterruptEvent and
  number 0, the constant of \<^verbatim>\<open>IRQ_REG\<close> on ARM, not the number 5 of the line.
\<close>

theorem interrupt_event_number_is_zero:
  "ProcessCtlHandler 65534 Some 65534 WatchIRQ 5 0 example_kernel
     = Return Success (hookIntVector 5 (Some 0) example_kernel) \<and>
   pending_events 0
     (executeIntVector 5 (initial_cpuState 0) (hookIntVector 5 (Some 0) example_kernel))
     = Some [\<lparr>event_type = InterruptEvent, event_number = 0\<rparr>]"
  by (simp add: handler_defs IRQ_def IRQ_REG_def hookIntVector_def executeIntVector_def
        interruptNotify_def raiseEvent_def pending_events_def example_defs)

subsection \<open>Resume before EnterSleep\<close>

text \<open>
  Claim C5. A Resume of an existing process p returns Success and leaves p Ready with
  one more pending wakeup. If that wakeup is still pending when p is the current
  process and executes EnterSleep, the call returns Success whatever the scheduler
  would do, so without calling it (the scheduler of the statement may be one that
  never comes back): p's pending wakeups are consumed and nothing else changes; p is
  in the state it was in, it has not been put to sleep.
\<close>

theorem Resume_then_EnterSleep_does_not_block:
  assumes tgt: "procs s (target SELF procID s) = Some p"
      and cur: "current s2 = target SELF procID s"
      and p2: "procs s2 (target SELF procID s) = Some p2"
      and pending: "m_wakeups p2 = m_wakeups (wakeup p)"
  shows "ProcessCtlHandler SELF schedule procID Resume addr output s =
           Return Success (s\<lparr>procs := (procs s)(target SELF procID s \<mapsto> wakeup p)\<rparr>) \<and>
         m_state (wakeup p) = Ready \<and>
         ProcessCtlHandler SELF schedule' SELF EnterSleep addr' output' s2 =
           Return Success
             (s2\<lparr>procs := (procs s2)(target SELF procID s \<mapsto> p2\<lparr>m_wakeups := 0\<rparr>)\<rparr>) \<and>
         m_state (p2\<lparr>m_wakeups := 0\<rparr>) = m_state p2"
proof -
  let ?k = "target SELF procID s"
  from tgt have r: "ProcessCtlHandler SELF schedule procID Resume addr output s =
           Return Success (s\<lparr>procs := (procs s)(?k \<mapsto> wakeup p)\<rparr>)"
    by (simp add: ProcessCtlHandler_def resolve_target dispatch_def with_process_def
          update_process_def)
  from pending have "m_wakeups p2 \<noteq> 0" by (simp add: wakeup_def)
  with cur p2 have "ProcessCtlHandler SELF schedule' SELF EnterSleep addr' output' s2 =
           Return Success (s2\<lparr>procs := (procs s2)(?k \<mapsto> p2\<lparr>m_wakeups := 0\<rparr>)\<rparr>)"
    by (simp add: ProcessCtlHandler_def resolve_def dispatch_def with_process_def
          update_process_def sleep_def)
  with r show ?thesis by (simp add: wakeup_def)
qed

text \<open>
  The witness: process 0 resumes process 1, the scheduler switches to process 1, and
  process 1 executes EnterSleep under a scheduler that never returns.
\<close>

theorem Resume_then_EnterSleep_does_not_block_witness:
  "ProcessCtlHandler 65534 Some 1 Resume 0 0 example_kernel =
     Return Success
       (example_kernel\<lparr>procs := (procs example_kernel)(1 \<mapsto> wakeup (example_process 1 Ready))\<rparr>) \<and>
   switch_to 1 (example_kernel\<lparr>procs := (procs example_kernel)(1 \<mapsto> wakeup (example_process 1 Ready))\<rparr>)
     = Some (example_kernel
         \<lparr>procs := [0 \<mapsto> example_process 0 Ready,
                    1 \<mapsto> (wakeup (example_process 1 Ready))\<lparr>m_state := Running\<rparr>],
          current := 1\<rparr>) \<and>
   ProcessCtlHandler 65534 (\<lambda>x. None) 65534 EnterSleep 0 0
       (example_kernel
         \<lparr>procs := [0 \<mapsto> example_process 0 Ready,
                    1 \<mapsto> (wakeup (example_process 1 Ready))\<lparr>m_state := Running\<rparr>],
          current := 1\<rparr>) =
     Return Success
       (example_kernel
         \<lparr>procs := [0 \<mapsto> example_process 0 Ready,
                    1 \<mapsto> (wakeup (example_process 1 Ready))\<lparr>m_state := Running, m_wakeups := 0\<rparr>],
          current := 1\<rparr>)"
proof -
  let ?s2 = "example_kernel
         \<lparr>procs := [0 \<mapsto> example_process 0 Ready,
                    1 \<mapsto> (wakeup (example_process 1 Ready))\<lparr>m_state := Running\<rparr>],
          current := 1\<rparr>"
  have tgt: "procs example_kernel (target 65534 1 example_kernel) = Some (example_process 1 Ready)"
    by (simp add: target_def example_kernel_def)
  have cur: "current ?s2 = target 65534 1 example_kernel"
    by (simp add: target_def)
  have p2: "procs ?s2 (target 65534 1 example_kernel)
              = Some ((wakeup (example_process 1 Ready))\<lparr>m_state := Running\<rparr>)"
    by (simp add: target_def)
  have pending: "m_wakeups ((wakeup (example_process 1 Ready))\<lparr>m_state := Running\<rparr>)
                   = m_wakeups (wakeup (example_process 1 Ready))"
    by simp
  have sw: "switch_to 1 (example_kernel\<lparr>procs := (procs example_kernel)(1 \<mapsto> wakeup (example_process 1 Ready))\<rparr>)
     = Some ?s2"
    by (simp add: switch_to_def switched_def update_process_def wakeup_def example_defs)
  from Resume_then_EnterSleep_does_not_block [OF tgt cur p2 pending, of Some 0 0 "\<lambda>x. None" 0 0] sw
  show ?thesis
    by (simp add: target_def)
qed

subsection \<open>WaitPID\<close>



















subsection \<open>The wait-target invariant\<close>




lemma wait_invariant_frame [simp]:
  "wait_invariant (s\<lparr>umem := m\<rparr>) = wait_invariant s"
  "wait_invariant (s\<lparr>hooks := h\<rparr>) = wait_invariant s"
  "wait_invariant (s\<lparr>irqs := i\<rparr>) = wait_invariant s"
  by (simp_all add: wait_invariant_def)








end
